theory Spec2Isabelle
  imports Complex_Main "HOL-Library.FSet"
begin

section \<open>JavaScript numbers\<close>

text \<open>
  The analytics of \<^verbatim>\<open>speech-recognition.js\<close> are JavaScript numbers. Finite values are
  modelled exactly, as rationals (the rounding of IEEE doubles is left out); the
  outcomes of a division by zero are values of their own, since HOL's \<open>x / 0 = 0\<close> is
  not what JavaScript computes.
\<close>

datatype jsnum = Num rat | PosInf | NegInf | NaN

definition js_div :: "rat \<Rightarrow> rat \<Rightarrow> jsnum" where
  \<comment> \<open>\<^verbatim>\<open>a / b\<close> for finite \<open>a\<close>, \<open>b\<close>; the only zero divisor the program produces is \<open>+0\<close>.\<close>
  "js_div a b =
     (if b = 0 then (if a = 0 then NaN else if 0 < a then PosInf else NegInf)
      else Num (a / b))"

definition js_round :: "jsnum \<Rightarrow> jsnum" where
  \<comment> \<open>\<^verbatim>\<open>Math.round\<close>: to the nearest integer, ties upwards.\<close>
  "js_round x = (case x of Num r \<Rightarrow> Num (of_int \<lfloor>r + 1 / 2\<rfloor>) | _ \<Rightarrow> x)"

definition js_or_zero :: "jsnum \<Rightarrow> jsnum" where
  \<comment> \<open>\<^verbatim>\<open>x || 0\<close>: \<open>NaN\<close> and \<open>0\<close> are falsy.\<close>
  "js_or_zero x = (if x = NaN \<or> x = Num 0 then Num 0 else x)"

section \<open>JavaScript strings\<close>

text \<open>
  A transcript is a \<open>string\<close>; each \<open>char\<close> stands for the UTF-16 code unit of the same
  number, so the model covers text in the range U+0000 to U+00FF. White space, word
  characters and case mapping are those of ECMAScript on that range.
\<close>

definition code_unit :: "char \<Rightarrow> nat" where
  "code_unit c = of_char c"

definition is_space :: "char \<Rightarrow> bool" where
  \<comment> \<open>\<^verbatim>\<open>\s\<close>, and what \<^verbatim>\<open>trim()\<close> removes: TAB, LF, VT, FF, CR, SP, NBSP.\<close>
  "is_space c = (code_unit c \<in> {9, 10, 11, 12, 13, 32, 160})"

definition is_word :: "char \<Rightarrow> bool" where
  \<comment> \<open>\<^verbatim>\<open>\w\<close>: \<^verbatim>\<open>[A-Za-z0-9_]\<close>.\<close>
  "is_word c =
     (let n = code_unit c in
        (48 \<le> n \<and> n \<le> 57) \<or> (65 \<le> n \<and> n \<le> 90) \<or> n = 95 \<or> (97 \<le> n \<and> n \<le> 122))"

definition to_lower :: "char \<Rightarrow> char" where
  \<comment> \<open>\<^verbatim>\<open>toLowerCase()\<close> on one code unit: A-Z, and U+00C0 to U+00DE except U+00D7.\<close>
  "to_lower c =
     (let n = code_unit c in
        if (65 \<le> n \<and> n \<le> 90) \<or> (192 \<le> n \<and> n \<le> 222 \<and> n \<noteq> 215)
        then char_of (n + 32) else c)"

definition toLowerCase :: "string \<Rightarrow> string" where
  "toLowerCase s = map to_lower s"

definition trim :: "string \<Rightarrow> string" where
  "trim s = rev (dropWhile is_space (rev (dropWhile is_space s)))"

text \<open>
  \<^verbatim>\<open>s.split(/\s+/)\<close>: the pieces between maximal runs of white space. The empty string
  gives one empty piece; white space at either end gives an empty piece there.
\<close>

function split_ws :: "string \<Rightarrow> string \<Rightarrow> string list" where
  "split_ws cur [] = [cur]"
| "split_ws cur (c # cs) =
     (if is_space c then cur # split_ws [] (dropWhile is_space cs)
      else split_ws (cur @ [c]) cs)"
  by pat_completeness auto
termination
  by (relation "measure (\<lambda>(cur, s). length s)")
     (auto simp: less_Suc_eq_le length_dropWhile_le)

definition split_spaces :: "string \<Rightarrow> string list" where
  "split_spaces s = split_ws [] s"

definition remove_punctuation :: "string \<Rightarrow> string" where
  \<comment> \<open>\<^verbatim>\<open>word.replace(/[^\w\s]|_/g, "")\<close>\<close>
  "remove_punctuation w = filter (\<lambda>c. (is_word c \<or> is_space c) \<and> c \<noteq> CHR ''_'') w"

subsection \<open>The filler-word pattern\<close>

text \<open>
  \<^verbatim>\<open>new RegExp('\\b' + fillerWord + '\\b', 'gi')\<close> for a phrase of letters, digits and
  spaces, as every configured phrase is: the phrase itself, compared without regard to
  case, between two word boundaries. With the flag \<^verbatim>\<open>i\<close> and without \<^verbatim>\<open>u\<close>, two code
  units are equal when their upper-case forms are; \<open>canonicalize\<close> is a number because
  U+00FF and U+00B5 have their upper-case forms beyond U+00FF.
\<close>

definition canonicalize :: "char \<Rightarrow> nat" where
  "canonicalize c =
     (let n = code_unit c in
        if (97 \<le> n \<and> n \<le> 122) \<or> (224 \<le> n \<and> n \<le> 254 \<and> n \<noteq> 247) then n - 32
        else if n = 255 then 376
        else if n = 181 then 924
        else n)"

definition is_word_at :: "string \<Rightarrow> nat \<Rightarrow> bool" where
  "is_word_at s i = (i < length s \<and> is_word (s ! i))"

definition word_boundary :: "string \<Rightarrow> nat \<Rightarrow> bool" where
  \<comment> \<open>\<^verbatim>\<open>\b\<close> at position \<open>i\<close>: a word character on exactly one side.\<close>
  "word_boundary s i = ((0 < i \<and> is_word_at s (i - 1)) \<noteq> is_word_at s i)"

definition match_at :: "string \<Rightarrow> string \<Rightarrow> nat \<Rightarrow> bool" where
  "match_at p s i =
     (word_boundary s i \<and> i + length p \<le> length s
      \<and> map canonicalize (take (length p) (drop i s)) = map canonicalize p
      \<and> word_boundary s (i + length p))"

text \<open>
  \<^verbatim>\<open>transcript.match(regex)\<close> with the flag \<^verbatim>\<open>g\<close>: the matches found from left to right,
  each search starting where the last match ended (one further after an empty match).
  \<open>match_count\<close> is the length of the array returned, and 0 when \<^verbatim>\<open>null\<close> is.
\<close>

function match_count_from :: "string \<Rightarrow> string \<Rightarrow> nat \<Rightarrow> nat" where
  "match_count_from p s i =
     (if length s < i then 0
      else if match_at p s i then Suc (match_count_from p s (i + max 1 (length p)))
      else match_count_from p s (Suc i))"
  by pat_completeness auto
termination
  by (relation "measure (\<lambda>(p, s, i). Suc (length s) - i)") auto

declare match_count_from.simps [simp del]

definition match_count :: "string \<Rightarrow> string \<Rightarrow> nat" where
  "match_count p s = match_count_from p s 0"

section \<open>The session\<close>

text \<open>
  Class \<^verbatim>\<open>SpeechRecognitionManager\<close>. The recognition engine, the clock and the two
  handlers are outside the program: what the engine answers to a request and what
  \<^verbatim>\<open>Date.now()\<close> reads are arguments of the operations, and what the session does to the
  outside (engine requests, handler calls, console lines) is appended to \<open>effects\<close>.
  A handler slot is modelled by whether it holds a handler; handlers are taken to
  return normally and not to call back into the session.
\<close>

datatype request_outcome = Accepted | Rejected

datatype completion = Returned | Threw

record analytics =
  snap_fillerWordCount :: nat
  vocabularyDiversity :: jsnum
  wpm :: jsnum
  duration :: jsnum

datatype effect =
    EngineStart
  | EngineStop
  | TranscriptUpdate string string
  | AnalyticsUpdate analytics bool
  | ConsoleLog string
  | ConsoleError string

record state =
  isRecording :: bool
  transcriptText :: string
  startTime :: "int option"
  wordCount :: nat
  fillerWords :: "string list"
  fillerWordCount :: nat
  uniqueWords :: "string fset"
  onTranscriptUpdate :: bool
  onAnalyticsUpdate :: bool
  effects :: "effect list"

definition default_fillerWords :: "string list" where
  "default_fillerWords =
     [''um'', ''uh'', ''like'', ''you know'', ''actually'', ''basically'', ''literally'',
      ''sort of'', ''kind of'']"

definition new_state :: state where
  \<comment> \<open>the fields as the constructor initialises them (lines 21 to 31)\<close>
  "new_state =
     \<lparr>isRecording = False, transcriptText = [], startTime = None, wordCount = 0,
      fillerWords = default_fillerWords, fillerWordCount = 0, uniqueWords = {||},
      onTranscriptUpdate = False, onAnalyticsUpdate = False, effects = []\<rparr>"

definition emit :: "effect \<Rightarrow> state \<Rightarrow> state" where
  "emit e st = st\<lparr>effects := effects st @ [e]\<rparr>"

definition start_ms :: "state \<Rightarrow> int" where
  \<comment> \<open>\<^verbatim>\<open>this.startTime\<close> as an operand of \<^verbatim>\<open>-\<close>: \<^verbatim>\<open>null\<close> counts as 0\<close>
  "start_ms st = (case startTime st of None \<Rightarrow> 0 | Some t \<Rightarrow> t)"

definition compute_analytics :: "int \<Rightarrow> state \<Rightarrow> analytics" where
  \<comment> \<open>lines 75 to 83, and the same lines 119 to 127; \<open>minutes\<close> is the local \<^verbatim>\<open>duration\<close>\<close>
  "compute_analytics now st =
     (let minutes = of_int (now - start_ms st) / 1000 / 60 :: rat;
          w = js_round (js_div (of_nat (wordCount st)) minutes)
      in \<lparr>snap_fillerWordCount = fillerWordCount st,
          vocabularyDiversity =
            js_or_zero (js_div (of_nat (fcard (uniqueWords st))) (of_nat (wordCount st))),
          wpm = w,
          duration = js_round (Num (minutes * 60))\<rparr>)"

definition add_word :: "string \<Rightarrow> string fset \<Rightarrow> string fset" where
  \<comment> \<open>the body of the first \<^verbatim>\<open>forEach\<close> (lines 101 to 105)\<close>
  "add_word word u =
     (let cleanWord = remove_punctuation word
      in if 0 < length cleanWord then finsert cleanWord u else u)"

definition add_filler :: "string \<Rightarrow> string \<Rightarrow> nat \<Rightarrow> nat" where
  \<comment> \<open>the body of the second \<^verbatim>\<open>forEach\<close> (lines 110 to 114)\<close>
  "add_filler transcript fillerWord n =
     (let matches = match_count fillerWord transcript
      in if 0 < matches then n + matches else n)"

definition processTranscript :: "int \<Rightarrow> string \<Rightarrow> state \<Rightarrow> state" where
  "processTranscript now transcript st =
     (let words = split_spaces (toLowerCase (trim transcript));
          st1 = st\<lparr>wordCount := wordCount st + length words\<rparr>;
          st2 = st1\<lparr>uniqueWords := fold add_word words (uniqueWords st1)\<rparr>;
          st3 = st2\<lparr>fillerWordCount :=
                      fold (add_filler transcript) (fillerWords st2) (fillerWordCount st2)\<rparr>
      in if startTime st3 \<noteq> None \<and> startTime st3 \<noteq> Some 0
         then (if onAnalyticsUpdate st3
               then emit (AnalyticsUpdate (compute_analytics now st3) False) st3
               else st3)
         else st3)"

text \<open>
  One recognition result of an event: \<open>transcript\<close> is \<^verbatim>\<open>results[i][0].transcript\<close>,
  \<open>isFinal\<close> is \<^verbatim>\<open>results[i].isFinal\<close>.
\<close>

record result =
  transcript :: string
  isFinal :: bool

record result_event =
  resultIndex :: nat
  results :: "result list"

text \<open>
  The loop of \<^verbatim>\<open>onresult\<close> over \<^verbatim>\<open>results[resultIndex .. length - 1]\<close>. \<open>clock i\<close> is what
  \<^verbatim>\<open>Date.now()\<close> reads while \<^verbatim>\<open>results[i]\<close> is processed.
\<close>

fun result_loop ::
  "(nat \<Rightarrow> int) \<Rightarrow> nat \<Rightarrow> result list \<Rightarrow> string \<times> string \<times> state \<Rightarrow> string \<times> string \<times> state"
where
  "result_loop clock i [] acc = acc"
| "result_loop clock i (r # rs) (interimTranscript, finalTranscript, st) =
     (if isFinal r
      then result_loop clock (Suc i) rs
             (interimTranscript, finalTranscript @ transcript r,
              processTranscript (clock i) (transcript r) st)
      else result_loop clock (Suc i) rs
             (interimTranscript @ transcript r, finalTranscript, st))"

definition onresult :: "(nat \<Rightarrow> int) \<Rightarrow> result_event \<Rightarrow> state \<Rightarrow> state" where
  "onresult clock event st =
     (case result_loop clock (resultIndex event) (drop (resultIndex event) (results event))
             ([], [], st)
      of (interimTranscript, finalTranscript, st1) \<Rightarrow>
        (let st2 = st1\<lparr>transcriptText := finalTranscript\<rparr>
         in if onTranscriptUpdate st2
            then emit (TranscriptUpdate finalTranscript interimTranscript) st2
            else st2))"

definition stop_live :: "request_outcome \<Rightarrow> state \<Rightarrow> state" where
  \<comment> \<open>the \<^verbatim>\<open>try\<close> statement of \<^verbatim>\<open>stop()\<close>; \<open>eng\<close> is what \<^verbatim>\<open>recognition.stop()\<close> does\<close>
  "stop_live eng st =
     (let st1 = emit EngineStop (st\<lparr>isRecording := False\<rparr>)
      in case eng of
           Accepted \<Rightarrow> emit (ConsoleLog ''Speech recognition stopped'') st1
         | Rejected \<Rightarrow> emit (ConsoleError ''Error stopping speech recognition:'') st1)"

definition start_live :: "request_outcome \<Rightarrow> int \<Rightarrow> state \<Rightarrow> state" where
  \<comment> \<open>the \<^verbatim>\<open>try\<close> statement of \<^verbatim>\<open>start()\<close>; \<open>eng\<close> is what \<^verbatim>\<open>recognition.start()\<close> does\<close>
  "start_live eng now st =
     (let st1 = emit EngineStart (st\<lparr>isRecording := True\<rparr>)
      in case eng of
           Accepted \<Rightarrow>
             emit (ConsoleLog ''Speech recognition started'')
               (st1\<lparr>startTime := Some now, wordCount := 0, fillerWordCount := 0,
                    uniqueWords := {||}\<rparr>)
         | Rejected \<Rightarrow> emit (ConsoleError ''Error starting speech recognition:'') st1)"

definition onerror :: "request_outcome \<Rightarrow> state \<Rightarrow> state" where
  \<comment> \<open>\<^verbatim>\<open>this.stop()\<close> passes its guard here: the handler exists only with an engine\<close>
  "onerror eng st = stop_live eng (emit (ConsoleError ''Speech recognition error:'') st)"

definition onend :: "request_outcome \<Rightarrow> int \<Rightarrow> state \<Rightarrow> completion \<times> state" where
  \<comment> \<open>the restart is outside any \<^verbatim>\<open>try\<close>: an exception of the engine leaves the handler\<close>
  "onend eng now st =
     (if isRecording st
      then (case eng of Accepted \<Rightarrow> Returned | Rejected \<Rightarrow> Threw, emit EngineStart st)
      else (Returned,
            if onAnalyticsUpdate st
            then emit (AnalyticsUpdate (compute_analytics now st) True) st
            else st))"

subsection \<open>The object and its public methods\<close>

text \<open>
  Without a recognition capability the constructor returns at line 11: the object has
  no \<^verbatim>\<open>recognition\<close> and none of the fields of \<open>state\<close>. \<open>Inert t a out\<close> is that object:
  only its two handler slots can be assigned later, and \<open>out\<close> holds its console lines.
\<close>

datatype manager = Inert bool bool "effect list" | Live state

datatype jsval = Undefined | Str string | Boolean bool

definition constructor :: "bool \<Rightarrow> manager" where
  "constructor supported =
     (if \<not> supported
      then Inert False False [ConsoleError ''Speech recognition not supported in this browser'']
      else Live new_state)"

definition start :: "request_outcome \<Rightarrow> int \<Rightarrow> manager \<Rightarrow> completion \<times> manager" where
  "start eng now m =
     (case m of
        Inert t a out \<Rightarrow> (Returned, m)
      | Live st \<Rightarrow> (Returned, Live (start_live eng now st)))"

definition stop :: "request_outcome \<Rightarrow> manager \<Rightarrow> completion \<times> manager" where
  "stop eng m =
     (case m of
        Inert t a out \<Rightarrow> (Returned, m)
      | Live st \<Rightarrow> (Returned, Live (stop_live eng st)))"

definition setTranscriptUpdateCallback :: "bool \<Rightarrow> manager \<Rightarrow> manager" where
  "setTranscriptUpdateCallback callback m =
     (case m of
        Inert t a out \<Rightarrow> Inert callback a out
      | Live st \<Rightarrow> Live (st\<lparr>onTranscriptUpdate := callback\<rparr>))"

definition setAnalyticsUpdateCallback :: "bool \<Rightarrow> manager \<Rightarrow> manager" where
  "setAnalyticsUpdateCallback callback m =
     (case m of
        Inert t a out \<Rightarrow> Inert t callback out
      | Live st \<Rightarrow> Live (st\<lparr>onAnalyticsUpdate := callback\<rparr>))"

definition getTranscript :: "manager \<Rightarrow> jsval" where
  "getTranscript m = (case m of Inert t a out \<Rightarrow> Undefined | Live st \<Rightarrow> Str (transcriptText st))"

definition isListening :: "manager \<Rightarrow> jsval" where
  "isListening m = (case m of Inert t a out \<Rightarrow> Undefined | Live st \<Rightarrow> Boolean (isRecording st))"

subsection \<open>Events of a session with an engine\<close>

text \<open>
  Everything that can happen to a session that has an engine: the calls of its owner and
  the three events of the engine, each with what the engine and the clock answer.
  Handlers run to completion one after the other, so a session's life is a list of
  events.
\<close>

datatype event =
    Start request_outcome int
  | Stop request_outcome
  | OnResult "nat \<Rightarrow> int" result_event
  | OnError request_outcome
  | OnEnd request_outcome int
  | SetTranscriptUpdateCallback bool
  | SetAnalyticsUpdateCallback bool

fun step :: "event \<Rightarrow> state \<Rightarrow> state" where
  "step (Start eng now) st = start_live eng now st"
| "step (Stop eng) st = stop_live eng st"
| "step (OnResult clock ev) st = onresult clock ev st"
| "step (OnError eng) st = onerror eng st"
| "step (OnEnd eng now) st = snd (onend eng now st)"
| "step (SetTranscriptUpdateCallback callback) st = st\<lparr>onTranscriptUpdate := callback\<rparr>"
| "step (SetAnalyticsUpdateCallback callback) st = st\<lparr>onAnalyticsUpdate := callback\<rparr>"

definition run :: "event list \<Rightarrow> state \<Rightarrow> state" where
  "run es st = fold step es st"


fun is_end :: "event \<Rightarrow> bool" where
  "is_end (OnEnd eng now) = True"
| "is_end e = False"

text \<open>What was added to \<open>effects\<close> between two states, and the analytics updates in it.\<close>

definition new_effects :: "state \<Rightarrow> state \<Rightarrow> effect list" where
  "new_effects st st' = drop (length (effects st)) (effects st')"

fun analytics_updates :: "effect list \<Rightarrow> (analytics \<times> bool) list" where
  "analytics_updates [] = []"
| "analytics_updates (AnalyticsUpdate a final # es) = (a, final) # analytics_updates es"
| "analytics_updates (e # es) = analytics_updates es"

definition manager_effects :: "manager \<Rightarrow> effect list" where
  "manager_effects m = (case m of Inert t a out \<Rightarrow> out | Live st \<Rightarrow> effects st)"

section \<open>What the specification says, as definitions\<close>

text \<open>
  The final text of one batch: the transcripts of the final results among those the
  event reports, in order. The accumulated final transcript of a list of batches is
  the concatenation of these.
\<close>

definition final_text :: "result_event \<Rightarrow> string" where
  "final_text ev = concat (map transcript (filter isFinal (drop (resultIndex ev) (results ev))))"

definition accumulated_final_text :: "result_event list \<Rightarrow> string" where
  "accumulated_final_text evs = concat (map final_text evs)"

text \<open>
  The tokens of a list of final fragments, the distinct normalized ones among them,
  and the vocabulary diversity they define.
\<close>

definition fragment_tokens :: "string list \<Rightarrow> string list" where
  "fragment_tokens fs = concat (map (\<lambda>f. split_spaces (toLowerCase (trim f))) fs)"

definition normalized_tokens :: "string list \<Rightarrow> string fset" where
  "normalized_tokens fs =
     fset_of_list (filter (\<lambda>w. w \<noteq> []) (map remove_punctuation (fragment_tokens fs)))"

definition spec_diversity :: "string list \<Rightarrow> rat" where
  "spec_diversity fs =
     (if length (fragment_tokens fs) = 0 then 0
      else of_nat (fcard (normalized_tokens fs)) / of_nat (length (fragment_tokens fs)))"


definition example_fragment :: string where
  "example_fragment = ''um I think this is like really great''"

text \<open>An event that reports one final result, and nothing else.\<close>

definition single_final :: "string \<Rightarrow> result_event" where
  "single_final t = \<lparr>resultIndex = 0, results = [\<lparr>transcript = t, isFinal = True\<rparr>]\<rparr>"


definition snapshots_of :: "string list \<Rightarrow> string list \<Rightarrow> effect list \<Rightarrow> bool" where
  "snapshots_of fs gs xs =
     (\<forall>(a, final) \<in> set (analytics_updates xs).
        \<exists>n\<le>length gs. vocabularyDiversity a = Num (spec_diversity (fs @ take n gs)))"

section \<open>Basic facts\<close>

lemma effects_emit [simp]: "effects (emit e st) = effects st @ [e]"
  by (simp add: emit_def)

lemma emit_fields [simp]:
  "isRecording (emit e st) = isRecording st"
  "transcriptText (emit e st) = transcriptText st"
  "startTime (emit e st) = startTime st"
  "wordCount (emit e st) = wordCount st"
  "fillerWords (emit e st) = fillerWords st"
  "fillerWordCount (emit e st) = fillerWordCount st"
  "uniqueWords (emit e st) = uniqueWords st"
  "onTranscriptUpdate (emit e st) = onTranscriptUpdate st"
  "onAnalyticsUpdate (emit e st) = onAnalyticsUpdate st"
  by (simp_all add: emit_def)

lemma analytics_updates_append [simp]:
  "analytics_updates (xs @ ys) = analytics_updates xs @ analytics_updates ys"
  by (induction xs rule: analytics_updates.induct) simp_all

lemma isRecording_stop_live [simp]: "isRecording (stop_live eng st) = False"
  by (cases eng) (simp_all add: stop_live_def)

lemma fold_add_filler:
  "fold (add_filler t) ps n = n + sum_list (map (\<lambda>p. match_count p t) ps)"
  by (induction ps arbitrary: n) (auto simp: add_filler_def Let_def)

lemma fold_add_word:
  "fold add_word ws u
     = u |\<union>| fset_of_list (filter (\<lambda>w. w \<noteq> []) (map remove_punctuation ws))"
  by (induction ws arbitrary: u) (auto simp: add_word_def Let_def)

lemma processTranscript_fields:
  "wordCount (processTranscript now t st)
     = wordCount st + length (split_spaces (toLowerCase (trim t)))"
  "uniqueWords (processTranscript now t st)
     = uniqueWords st |\<union>|
       fset_of_list (filter (\<lambda>w. w \<noteq> [])
         (map remove_punctuation (split_spaces (toLowerCase (trim t)))))"
  "fillerWordCount (processTranscript now t st)
     = fillerWordCount st + sum_list (map (\<lambda>p. match_count p t) (fillerWords st))"
  "isRecording (processTranscript now t st) = isRecording st"
  "startTime (processTranscript now t st) = startTime st"
  "fillerWords (processTranscript now t st) = fillerWords st"
  "onAnalyticsUpdate (processTranscript now t st) = onAnalyticsUpdate st"
  "onTranscriptUpdate (processTranscript now t st) = onTranscriptUpdate st"
  by (simp_all add: processTranscript_def Let_def fold_add_filler fold_add_word)

lemma compute_analytics_cong:
  "wordCount a = wordCount b \<Longrightarrow> uniqueWords a = uniqueWords b \<Longrightarrow>
   fillerWordCount a = fillerWordCount b \<Longrightarrow> startTime a = startTime b \<Longrightarrow>
   compute_analytics now a = compute_analytics now b"
  by (simp add: compute_analytics_def start_ms_def)

lemma processTranscript_effects:
  "effects (processTranscript now t st) =
     effects st @
       (if startTime st \<noteq> None \<and> startTime st \<noteq> Some 0 \<and> onAnalyticsUpdate st
        then [AnalyticsUpdate (compute_analytics now (processTranscript now t st)) False]
        else [])"
proof -
  have "compute_analytics now (emit e s) = compute_analytics now s" for e s
    by (rule compute_analytics_cong) simp_all
  then show ?thesis
    by (simp add: processTranscript_def Let_def)
qed


lemma result_loop_final:
  "fst (snd (result_loop clock i rs (interim, fin, st)))
     = fin @ concat (map transcript (filter isFinal rs))"
  by (induction rs arbitrary: i interim fin st) simp_all

lemma transcriptText_onresult: "transcriptText (onresult clock ev st) = final_text ev"
proof -
  obtain interim fin st1 where
    l: "result_loop clock (resultIndex ev) (drop (resultIndex ev) (results ev)) ([], [], st)
          = (interim, fin, st1)"
    by (metis prod_cases3)
  have "fin = final_text ev"
    using result_loop_final
      [of clock "resultIndex ev" "drop (resultIndex ev) (results ev)" "[]" "[]" st]
    by (simp add: l final_text_def)
  then show ?thesis by (simp add: onresult_def l Let_def)
qed

section \<open>The transcript\<close>

text \<open>
  C1, as the code has it. After a batch is processed, \<^verbatim>\<open>getTranscript()\<close> returns the
  concatenation of the final-fragment texts of that batch alone, interim text excluded:
  \<^verbatim>\<open>onresult\<close> assigns the batch's final text to \<^verbatim>\<open>transcriptText\<close>, whatever it held.
\<close>

theorem getTranscript_last_batch:
  "getTranscript (Live (onresult clock ev st)) = Str (final_text ev)"
  by (simp add: getTranscript_def transcriptText_onresult)

text \<open>
  C1 as stated fails. A session is started and two batches arrive, the first with the
  final fragment "hello ", the second (from index 1 of the engine's growing result
  list) with the final fragment "world": the accumulated final text is "hello world",
  and \<^verbatim>\<open>getTranscript()\<close> returns "world".
\<close>

theorem getTranscript_not_accumulated:
  "getTranscript (Live (run
      [Start Accepted 1000,
       OnResult (\<lambda>i. 2000)
         \<lparr>resultIndex = 0, results = [\<lparr>transcript = ''hello '', isFinal = True\<rparr>]\<rparr>,
       OnResult (\<lambda>i. 3000)
         \<lparr>resultIndex = 1,
          results = [\<lparr>transcript = ''hello '', isFinal = True\<rparr>,
                     \<lparr>transcript = ''world'', isFinal = True\<rparr>]\<rparr>]
      new_state))
     = Str ''world''
   \<and> accumulated_final_text
       [\<lparr>resultIndex = 0, results = [\<lparr>transcript = ''hello '', isFinal = True\<rparr>]\<rparr>,
        \<lparr>resultIndex = 1,
         results = [\<lparr>transcript = ''hello '', isFinal = True\<rparr>,
                    \<lparr>transcript = ''world'', isFinal = True\<rparr>]\<rparr>]
     = ''hello world''"
  by (simp add: run_def getTranscript_def transcriptText_onresult final_text_def
        accumulated_final_text_def)

section \<open>Requests the engine rejects\<close>

text \<open>
  C2, as the code has it. When the engine throws on the request of \<^verbatim>\<open>start()\<close> or of
  \<^verbatim>\<open>stop()\<close>, the call returns normally, and the start timestamp, the word count, the
  filler count and the vocabulary set are what they were. The active flag is not: it
  is assigned before the request, so it is true after a failed \<^verbatim>\<open>start()\<close> and false
  after a failed \<^verbatim>\<open>stop()\<close>.
\<close>

theorem rejected_request_state:
  "fst (start Rejected now (Live st)) = Returned
   \<and> fst (stop Rejected (Live st)) = Returned
   \<and> snd (start Rejected now (Live st)) = Live (start_live Rejected now st)
   \<and> snd (stop Rejected (Live st)) = Live (stop_live Rejected st)
   \<and> isRecording (start_live Rejected now st) = True
   \<and> isRecording (stop_live Rejected st) = False
   \<and> startTime (start_live Rejected now st) = startTime st
   \<and> wordCount (start_live Rejected now st) = wordCount st
   \<and> fillerWordCount (start_live Rejected now st) = fillerWordCount st
   \<and> uniqueWords (start_live Rejected now st) = uniqueWords st
   \<and> startTime (stop_live Rejected st) = startTime st
   \<and> wordCount (stop_live Rejected st) = wordCount st
   \<and> fillerWordCount (stop_live Rejected st) = fillerWordCount st
   \<and> uniqueWords (stop_live Rejected st) = uniqueWords st"
  by (simp add: start_def stop_def start_live_def stop_live_def)

text \<open>
  C2 as stated fails: on a new session the active flag is false, and after a
  \<^verbatim>\<open>start()\<close> whose request the engine rejects it is true.
\<close>

theorem rejected_start_sets_flag:
  "isListening (constructor True) = Boolean False
   \<and> isListening (snd (start Rejected 1000 (constructor True))) = Boolean True"
  by (simp add: isListening_def constructor_def start_def start_live_def new_state_def)

section \<open>The halt event\<close>









text \<open>
  C4. A halt event that arrives while the active flag is true issues the engine's start
  request again and does nothing else: no analytics update is emitted and no field of
  the session changes. This holds in every state whose flag is true (if the engine
  rejects the request, its exception leaves the handler).
\<close>

theorem unprompted_halt_restarts:
  "isRecording st \<Longrightarrow>
     onend eng now st =
       (case eng of Accepted \<Rightarrow> Returned | Rejected \<Rightarrow> Threw,
        st\<lparr>effects := effects st @ [EngineStart]\<rparr>)
     \<and> new_effects st (snd (onend eng now st)) = [EngineStart]
     \<and> analytics_updates (new_effects st (snd (onend eng now st))) = []"
  by (simp add: onend_def emit_def new_effects_def)

theorem unprompted_halt_restarts_witness:
  "isRecording (start_live Accepted 1000 new_state)
   \<and> new_effects (start_live Accepted 1000 new_state)
        (snd (onend Accepted 5000 (start_live Accepted 1000 new_state))) = [EngineStart]"
  using unprompted_halt_restarts [of "start_live Accepted 1000 new_state" Accepted 5000]
  by (simp add: start_live_def new_state_def emit_def new_effects_def)

section \<open>Vocabulary diversity\<close>








lemma snapshots_of_Nil [simp]: "analytics_updates xs = [] \<Longrightarrow> snapshots_of fs gs xs"
  by (simp add: snapshots_of_def)








section \<open>Starting and stopping\<close>

text \<open>
  C6, as the code has it. On a session with an engine, after a \<^verbatim>\<open>start()\<close> call whose
  request the engine accepts, the word count is 0, the filler-word count is 0, the
  vocabulary set is empty and the active flag is true.
\<close>

theorem start_resets_counters:
  "start Accepted now (Live st) = (Returned, Live (start_live Accepted now st))
   \<and> wordCount (start_live Accepted now st) = 0
   \<and> fillerWordCount (start_live Accepted now st) = 0
   \<and> uniqueWords (start_live Accepted now st) = {||}
   \<and> isRecording (start_live Accepted now st) = True"
  by (simp add: start_def start_live_def)

text \<open>
  C6 as stated fails. A session is started, the final fragment "hello world" is
  processed, and \<^verbatim>\<open>start()\<close> is called again; the engine rejects the request (it is
  running already). The reset is skipped: immediately after the call the word count
  is 2.
\<close>

theorem rejected_start_keeps_counters:
  "snd (start Rejected 3000
      (Live (run [Start Accepted 1000, OnResult (\<lambda>i. 2000) (single_final ''hello world'')]
               new_state)))
     = Live (start_live Rejected 3000
         (run [Start Accepted 1000, OnResult (\<lambda>i. 2000) (single_final ''hello world'')]
            new_state))
   \<and> wordCount (start_live Rejected 3000
         (run [Start Accepted 1000, OnResult (\<lambda>i. 2000) (single_final ''hello world'')]
            new_state)) = 2"
proof -
  have "wordCount (start_live Rejected 3000
         (run [Start Accepted 1000, OnResult (\<lambda>i. 2000) (single_final ''hello world'')]
            new_state)) = 2"
    by code_simp
  then show ?thesis by (simp add: start_def)
qed

lemma result_loop_not_final:
  "\<exists>xs. effects (snd (snd (result_loop clock i rs (interim, fin, st)))) = effects st @ xs
        \<and> filter snd (analytics_updates xs) = []"
proof (induction rs arbitrary: i interim fin st)
  case Nil
  then show ?case by simp
next
  case (Cons r rs)
  show ?case
  proof (cases "isFinal r")
    case False
    with Cons.IH [where st = st and i = "Suc i"] show ?thesis by simp
  next
    case True
    let ?st1 = "processTranscript (clock i) (transcript r) st"
    from Cons.IH [where st = ?st1 and i = "Suc i" and interim = interim
        and fin = "fin @ transcript r"] obtain xs where
      "effects (snd (snd (result_loop clock (Suc i) rs (interim, fin @ transcript r, ?st1))))
         = effects ?st1 @ xs" "filter snd (analytics_updates xs) = []"
      by blast
    with True show ?thesis
      by (simp add: processTranscript_effects)
  qed
qed

lemma step_not_final:
  assumes "\<not> is_end e"
  shows "\<exists>xs. effects (step e st) = effects st @ xs \<and> filter snd (analytics_updates xs) = []"
proof (cases e)
  case (OnResult clock ev)
  let ?rs = "drop (resultIndex ev) (results ev)"
  obtain interim fin st1 where
    l: "result_loop clock (resultIndex ev) ?rs ([], [], st) = (interim, fin, st1)"
    by (metis prod_cases3)
  with result_loop_not_final [of clock "resultIndex ev" ?rs "[]" "[]" st] OnResult
  show ?thesis
    by (auto simp: onresult_def Let_def)
next
  case (Start eng now)
  then show ?thesis by (cases eng) (simp_all add: start_live_def)
next
  case (Stop eng)
  then show ?thesis by (cases eng) (simp_all add: stop_live_def)
next
  case (OnError eng)
  then show ?thesis by (cases eng) (simp_all add: onerror_def stop_live_def)
qed (use assms in simp_all)

text \<open>
  C7. A second \<^verbatim>\<open>stop()\<close> leaves the active flag as the first one left it (false, on a
  session with an engine). Neither call emits an analytics update; and no event other
  than the halt event emits a final analytics update.
\<close>

theorem stop_twice:
  "isListening (snd (stop e2 (snd (stop e1 m)))) = isListening (snd (stop e1 m))
   \<and> isListening (snd (stop e1 (Live st))) = Boolean False
   \<and> analytics_updates (manager_effects (snd (stop e1 m))) = analytics_updates (manager_effects m)
   \<and> analytics_updates (manager_effects (snd (stop e2 (snd (stop e1 m)))))
       = analytics_updates (manager_effects m)
   \<and> (\<not> is_end e \<longrightarrow> filter snd (analytics_updates (new_effects s (step e s))) = [])"
proof -
  have "filter snd (analytics_updates (new_effects s (step e s))) = []" if "\<not> is_end e"
    using step_not_final [OF that, of s] by (auto simp: new_effects_def)
  moreover have "isListening (snd (stop e2 (snd (stop e1 m)))) = isListening (snd (stop e1 m))"
    by (cases m) (simp_all add: stop_def isListening_def)
  moreover have "analytics_updates (manager_effects (snd (stop e1 m)))
                   = analytics_updates (manager_effects m)" for e1 m
    by (cases m; cases e1) (simp_all add: stop_def manager_effects_def stop_live_def)
  ultimately show ?thesis
    by (simp add: stop_def isListening_def)
qed

theorem stop_twice_witness:
  "\<not> is_end (Stop Accepted)
   \<and> filter snd (analytics_updates (new_effects new_state (step (Stop Accepted) new_state)))
       = []"
  using stop_twice [of Accepted Accepted "Live new_state" new_state "Stop Accepted" new_state]
  by simp

section \<open>Monotone counters\<close>







section \<open>Filler words\<close>

lemma example_matches:
  "map (\<lambda>p. match_count p example_fragment) default_fillerWords = [1, 0, 1, 0, 0, 0, 0, 0, 0]"
  by code_simp

text \<open>
  C9. Processing the final fragment "um I think this is like really great" with the
  default filler list adds to the filler-word count the number of whole-word,
  case-insensitive matches of the configured phrases in the raw text: one of "um", one
  of "like" and none of the other seven, 2 in all.
\<close>

theorem filler_count_example:
  "fillerWords st = default_fillerWords \<Longrightarrow>
     fillerWordCount (processTranscript now example_fragment st) =
       fillerWordCount st
         + sum_list (map (\<lambda>p. match_count p example_fragment) default_fillerWords)
     \<and> map (\<lambda>p. match_count p example_fragment) default_fillerWords
         = [1, 0, 1, 0, 0, 0, 0, 0, 0]
     \<and> fillerWordCount (processTranscript now example_fragment st) = fillerWordCount st + 2"
  using example_matches by (simp add: processTranscript_fields)

theorem filler_count_example_witness:
  "fillerWords new_state = default_fillerWords
   \<and> fillerWordCount (processTranscript 1000 example_fragment new_state) = 2"
  using filler_count_example [of new_state 1000] by (simp add: new_state_def)

section \<open>A session without an engine\<close>

text \<open>
  C10. Constructed without a recognition capability, the object has none of the session
  fields: \<^verbatim>\<open>start()\<close> and \<^verbatim>\<open>stop()\<close> return and change nothing, and \<^verbatim>\<open>getTranscript()\<close>
  and \<^verbatim>\<open>isListening()\<close> return \<^verbatim>\<open>undefined\<close>, where a session with an engine returns
  the empty string and false.
\<close>

theorem inert_session_accessors:
  "start eng now (constructor False) = (Returned, constructor False)
   \<and> stop eng (constructor False) = (Returned, constructor False)
   \<and> getTranscript (constructor False) = Undefined
   \<and> isListening (constructor False) = Undefined
   \<and> getTranscript (snd (start eng now (constructor False))) = Undefined
   \<and> isListening (snd (start eng now (constructor False))) = Undefined
   \<and> getTranscript (constructor True) = Str []
   \<and> isListening (constructor True) = Boolean False"
  by (simp add: start_def stop_def constructor_def getTranscript_def isListening_def
        new_state_def)

end
